theory Spec2Isabelle
  imports Complex_Main
begin

section \<open>BESS sizing calculator: the numeric core of app.py\<close>

text \<open>
  The calculator of \<^verbatim>\<open>src/app.py\<close> is a chain of arithmetic and table lookups on
  Python floats, which are IEEE 754 doubles. The arithmetic is read in two ways.

  \<^item> Exact: a \<^verbatim>\<open>float\<close> is a \<^typ>\<open>real\<close> and every operation is exact. This is what
    the script does where it only compares doubles, looks them up in a table or prints
    them (the PCS rating, the transformer label, the choice of the best row), and it
    is the reading in which the formulas of the PCS quantity and of the electrical
    summary are stated.
  \<^item> Double precision (the last part of the definitions): a \<^verbatim>\<open>float\<close> is a double, an
    infinity or NaN, and every operation rounds its exact result to the nearest
    double. This is what the script computes; it decides what rounding up to four
    decimals, the capacity chain and the unit counts return.

  \<^verbatim>\<open>math.ceil\<close> is the ceiling \<open>\<lceil>x\<rceil>\<close> into \<^typ>\<open>int\<close> (Python's unbounded integer). What
  Python raises is a value of \<open>py_error\<close>.
\<close>

subsection \<open>Python errors and division\<close>

datatype py_error = ZeroDivisionError | TypeError | ValueError | OverflowError

text \<open>\<^verbatim>\<open>a / b\<close> on floats raises \<^verbatim>\<open>ZeroDivisionError\<close> when \<^verbatim>\<open>b\<close> is zero.\<close>

definition truediv :: "real \<Rightarrow> real \<Rightarrow> py_error + real" where
  "truediv a b = (if b = 0 then Inl ZeroDivisionError else Inr (a / b))"

text \<open>Sequencing: a raised error skips the rest of the computation.\<close>

definition and_then :: "py_error + 'a \<Rightarrow> ('a \<Rightarrow> py_error + 'b) \<Rightarrow> py_error + 'b" where
  "and_then r f = (case r of Inl e \<Rightarrow> Inl e | Inr v \<Rightarrow> f v)"

subsection \<open>Utility functions\<close>

text \<open>
  \<^verbatim>\<open>
  def round_up_to_4_dec(x: float) -> float:
      """Mimic Excel ROUNDUP(...,4) behaviour."""
      if x is None:
          return None
      factor = 10_000
      return math.ceil(x * factor) / factor
  \<close>
  In exact arithmetic; \<open>round_up_to_4_dec_f64\<close> below is the function on doubles.
\<close>

definition factor :: real where
  "factor = 10000"

fun round_up_to_4_dec :: "real option \<Rightarrow> real option" where
  "round_up_to_4_dec None = None"
| "round_up_to_4_dec (Some x) = Some (real_of_int \<lceil>x * factor\<rceil> / factor)"

text \<open>
  \<^verbatim>\<open>
  def select_pcs_rating(container_power_mw: float) -> float:
      pcs_sizes = [1.25, 1.50, 1.75, 2.0, 2.5, 5.0]
      for s in pcs_sizes:
          if container_power_mw <= s:
              return s
      return pcs_sizes[-1]
  \<close>
  The loop returns the first element that passes the test, which is \<^const>\<open>find\<close>.
\<close>

definition pcs_sizes :: "real list" where
  "pcs_sizes = [1.25, 1.50, 1.75, 2.0, 2.5, 5.0]"

definition select_pcs_rating :: "real \<Rightarrow> real" where
  "select_pcs_rating container_power_mw =
     (case find (\<lambda>s. container_power_mw \<le> s) pcs_sizes of
        Some s \<Rightarrow> s
      | None \<Rightarrow> last pcs_sizes)"

text \<open>
  \<^verbatim>\<open>
  def select_transformer_mva(container_power_mw: float) -> str:
      candidates = [1.25, 1.5, 1.75, 2.0, 2.5, 3.5, 5.0]
      for c in candidates:
          if container_power_mw <= c:
              return f"{c:.2f}MVA".rstrip("0").rstrip(".") + "MVA"
      return f"{candidates[-1]:.2f}MVA".rstrip("0").rstrip(".") + "MVA"
  \<close>
  The format \<^verbatim>\<open>{c:.2f}\<close> prints the value rounded to two decimals (ties to the even
  neighbour): a sign, the decimal digits of the integer part, a point and two digits.
  \<^verbatim>\<open>s.rstrip(chars)\<close> removes from the end of \<^verbatim>\<open>s\<close> every character that occurs in
  \<^verbatim>\<open>chars\<close>, until one does not.
\<close>

definition round_half_even :: "real \<Rightarrow> int" where
  "round_half_even r =
     (let f = \<lfloor>r\<rfloor>; d = r - real_of_int f
      in if d < 1 / 2 then f
         else if 1 / 2 < d then f + 1
         else if even f then f else f + 1)"

definition digit_char :: "nat \<Rightarrow> char" where
  "digit_char d = ''0123456789'' ! d"

fun decimal :: "nat \<Rightarrow> string" where
  "decimal n = (if n < 10 then [digit_char n] else decimal (n div 10) @ [digit_char (n mod 10)])"

declare decimal.simps [simp del]

definition format_2f :: "real \<Rightarrow> string" where
  "format_2f x =
     (let n = nat (round_half_even (\<bar>x\<bar> * 100))
      in (if x < 0 then ''-'' else []) @ decimal (n div 100) @ ''.'' @
         [digit_char (n mod 100 div 10), digit_char (n mod 10)])"

definition rstrip :: "string \<Rightarrow> string \<Rightarrow> string" where
  "rstrip s chars = rev (dropWhile (\<lambda>c. c \<in> set chars) (rev s))"

definition candidates :: "real list" where
  "candidates = [1.25, 1.5, 1.75, 2.0, 2.5, 3.5, 5.0]"

definition select_transformer_mva :: "real \<Rightarrow> string" where
  "select_transformer_mva container_power_mw =
     (case find (\<lambda>c. container_power_mw \<le> c) candidates of
        Some c \<Rightarrow> rstrip (rstrip (format_2f c @ ''MVA'') ''0'') ''.'' @ ''MVA''
      | None \<Rightarrow> rstrip (rstrip (format_2f (last candidates) @ ''MVA'') ''0'') ''.'' @ ''MVA'')"

subsection \<open>Inputs\<close>

text \<open>
  The sidebar widgets deliver one float each. The script reads them as module-level
  variables; here they are the fields of one record, and every later module-level
  variable is a function of it. The widgets' bounds (\<^verbatim>\<open>min_value\<close>, \<^verbatim>\<open>max_value\<close>) are not
  part of the arithmetic: where a property needs them it states them.
\<close>

record inputs =
  load_mw :: real
  discharge_h :: real
  dod_percent :: real
  rte_percent :: real
  other_eff_percent :: real
  c_rate :: real
  voltage_kv :: real
  power_factor :: real

subsection \<open>Discharge power\<close>

text \<open>\<^verbatim>\<open>required_discharge_power_mw = load_mw\<close>.\<close>

definition required_discharge_power_mw :: "inputs \<Rightarrow> real" where
  "required_discharge_power_mw i = load_mw i"

subsection \<open>Battery models and the configuration rows\<close>

record battery =
  name :: string
  capacity_kwh :: real

definition battery_models :: "battery list" where
  "battery_models =
     [\<lparr>name = ''261 kWh battery'', capacity_kwh = 261.0\<rparr>,
      \<lparr>name = ''3727.36 kWh battery'', capacity_kwh = 3727.36\<rparr>,
      \<lparr>name = ''5015.9 kWh battery'', capacity_kwh = 5015.9\<rparr>]"

text \<open>One row of the table, a field for each column of the source's dictionary.\<close>

record config_row =
  battery_model :: string
  unit_capacity_kwh :: real
  number_of_units :: int
  total_installed_capacity_mwh :: real
  oversizing_vs_required_mwh :: real
  oversizing_percent :: real
  container_c_rate :: real
  pcs_rating_per_unit_mw :: real
  pcs_quantity_for_discharge_power :: int
  transformer_per_unit :: string

text \<open>\<^verbatim>\<open>math.ceil(a / b)\<close>.\<close>

definition ceil_div :: "real \<Rightarrow> real \<Rightarrow> py_error + int" where
  "ceil_div a b = and_then (truediv a b) (\<lambda>q. Inr \<lceil>q\<rceil>)"

text \<open>
  The body of \<^verbatim>\<open>for model in battery_models:\<close>, for the values \<open>required\<close> of
  \<^verbatim>\<open>required_bess_mwh\<close>, \<open>discharge_power\<close> of \<^verbatim>\<open>required_discharge_power_mw\<close> and \<open>crate\<close> of
  \<^verbatim>\<open>customer_c_rate\<close>:
  \<^verbatim>\<open>
      cap_kwh = model["capacity_kwh"]
      if required_bess_mwh > 0:
          units = math.ceil(required_bess_mwh * 1000.0 / cap_kwh)
      else:
          units = 0
      total_mwh = units * cap_kwh / 1000.0
      oversize_mwh = total_mwh - required_bess_mwh if required_bess_mwh is not None else None
      oversize_pct = (
          (oversize_mwh / required_bess_mwh * 100.0)
          if required_bess_mwh and required_bess_mwh > 0
          else 0.0
      )
      container_power_mw = customer_c_rate * cap_kwh / 1000.0
      pcs_rating_mw = select_pcs_rating(container_power_mw)
      pcs_quantity = math.ceil(required_discharge_power_mw / pcs_rating_mw) if pcs_rating_mw > 0 else 0
      transformer_mva = select_transformer_mva(container_power_mw)
      rows.append({...})
  \<close>
  \<^verbatim>\<open>required_bess_mwh\<close> is a float here (the comparison \<^verbatim>\<open>required_bess_mwh > 0\<close> comes
  first and raises on \<^verbatim>\<open>None\<close>), so \<^verbatim>\<open>oversize_mwh\<close> is the difference. A float is
  truthy when it is not zero. The row is computed in exact arithmetic; \<open>units_f64\<close>,
  \<open>total_mwh_f64\<close> and \<open>oversize_mwh_f64\<close> below are the first three values on doubles.
\<close>

definition config_row_of :: "real \<Rightarrow> real \<Rightarrow> real \<Rightarrow> battery \<Rightarrow> py_error + config_row" where
  "config_row_of required discharge_power crate model =
     (let cap_kwh = capacity_kwh model
      in and_then (if required > 0 then ceil_div (required * 1000) cap_kwh else Inr 0)
      (\<lambda>units.
         let total_mwh = real_of_int units * cap_kwh / 1000;
             oversize_mwh = total_mwh - required
         in and_then
              (if required \<noteq> 0 \<and> required > 0
               then and_then (truediv oversize_mwh required) (\<lambda>q. Inr (q * 100))
               else Inr 0)
      (\<lambda>oversize_pct.
         let container_power_mw = crate * cap_kwh / 1000;
             pcs_rating_mw = select_pcs_rating container_power_mw
         in and_then (if pcs_rating_mw > 0 then ceil_div discharge_power pcs_rating_mw else Inr 0)
      (\<lambda>pcs_quantity.
         let transformer_mva = select_transformer_mva container_power_mw
         in Inr \<lparr>battery_model = name model,
                 unit_capacity_kwh = cap_kwh,
                 number_of_units = units,
                 total_installed_capacity_mwh = total_mwh,
                 oversizing_vs_required_mwh = oversize_mwh,
                 oversizing_percent = oversize_pct,
                 container_c_rate = crate,
                 pcs_rating_per_unit_mw = pcs_rating_mw,
                 pcs_quantity_for_discharge_power = pcs_quantity,
                 transformer_per_unit = transformer_mva\<rparr>))))"

text \<open>The loop: one row per model, in catalog order; an error ends it.\<close>

fun build_rows :: "real \<Rightarrow> real \<Rightarrow> real \<Rightarrow> battery list \<Rightarrow> py_error + config_row list" where
  "build_rows required discharge_power crate [] = Inr []"
| "build_rows required discharge_power crate (model # models) =
     and_then (config_row_of required discharge_power crate model)
       (\<lambda>row. and_then (build_rows required discharge_power crate models) (\<lambda>rows. Inr (row # rows)))"

subsection \<open>The best model\<close>

text \<open>
  \<^verbatim>\<open>
  best_idx = None
  if required_bess_mwh and required_bess_mwh > 0:
      best_idx = df_bess["Oversizing vs required (MWh)"].clip(lower=0).idxmin()
  \<close>
  The data frame has the default index, so a row's label is its position.
  \<^verbatim>\<open>clip(lower=0)\<close> replaces every value below 0 by 0. \<^verbatim>\<open>idxmin()\<close> is the position of
  the minimum, the first when it occurs more than once, and raises \<^verbatim>\<open>ValueError\<close> on an
  empty column; it is a scan that keeps the best position so far and replaces it only
  by a strictly smaller value.
\<close>

definition clip_lower :: "real \<Rightarrow> real list \<Rightarrow> real list" where
  "clip_lower lower xs = map (max lower) xs"

fun idxmin_scan :: "nat \<Rightarrow> real \<Rightarrow> nat \<Rightarrow> real list \<Rightarrow> nat" where
  "idxmin_scan best v k [] = best"
| "idxmin_scan best v k (x # xs) =
     (if x < v then idxmin_scan k x (Suc k) xs else idxmin_scan best v (Suc k) xs)"

fun idxmin :: "real list \<Rightarrow> py_error + nat" where
  "idxmin [] = Inl ValueError"
| "idxmin (x # xs) = Inr (idxmin_scan 0 x 1 xs)"

definition best_idx_of :: "real \<Rightarrow> config_row list \<Rightarrow> py_error + nat option" where
  "best_idx_of required df_bess =
     (if required \<noteq> 0 \<and> required > 0
      then and_then (idxmin (clip_lower 0 (map oversizing_vs_required_mwh df_bess)))
             (\<lambda>k. Inr (Some k))
      else Inr None)"

subsection \<open>Electrical: main breaker\<close>

text \<open>
  \<^verbatim>\<open>
  if voltage_kv > 0 and power_factor > 0:
      current_amps = required_discharge_power_mw * 1_000_000.0 / (math.sqrt(3) * voltage_kv * 1000.0 * power_factor)
  else:
      current_amps = 0.0
  breaker_amps = current_amps * 1.25
  \<close>
\<close>

definition current_amps :: "inputs \<Rightarrow> py_error + real" where
  "current_amps i =
     (if voltage_kv i > 0 \<and> power_factor i > 0
      then truediv (required_discharge_power_mw i * 1000000)
             (sqrt 3 * voltage_kv i * 1000 * power_factor i)
      else Inr 0)"

definition breaker_amps :: "inputs \<Rightarrow> py_error + real" where
  "breaker_amps i = and_then (current_amps i) (\<lambda>a. Inr (a * 1.25))"

subsection \<open>The default inputs\<close>

text \<open>The \<^verbatim>\<open>value=\<close> of each widget: what the script computes with when it starts.\<close>

definition default_inputs :: inputs where
  "default_inputs =
     \<lparr>load_mw = 0.99, discharge_h = 8.0, dod_percent = 90.0, rte_percent = 88.65,
      other_eff_percent = 100.0, c_rate = 0.25, voltage_kv = 0.4, power_factor = 0.85\<rparr>"

subsection \<open>Double precision\<close>

text \<open>
  A Python float is a finite double, an infinity or NaN. A finite double is the real
  number it stands for; the two zeros are not told apart (they compare equal, and a
  division by either raises).
\<close>

datatype pyfloat = Finite real | PosInf | NegInf | NaN

text \<open>
  Rounding to the nearest double, ties to the even neighbour. \<open>bitlen n\<close> is the number
  of binary digits of \<open>n\<close>, \<open>pow2 k\<close> is 2 to the power \<open>k\<close>, and \<open>binade x\<close> is the
  exponent \<open>e\<close> with \<open>pow2 e \<le> \<bar>x\<bar> < pow2 (e + 1)\<close>. The doubles of that binade are the
  multiples of \<open>pow2 (e - 52)\<close>, and below \<open>pow2 (- 1022)\<close> (the subnormal range) the
  multiples of \<open>pow2 (- 1074)\<close>: \<open>quantum x\<close> is that spacing and \<open>nearest x\<close> the nearest
  multiple. A result of magnitude \<open>pow2 1024\<close> or more is an infinity. A decimal
  literal of the source, such as \<^verbatim>\<open>5015.9\<close>, denotes \<open>nearest 5015.9\<close>.
\<close>

fun bitlen :: "nat \<Rightarrow> nat" where
  "bitlen n = (if n = 0 then 0 else Suc (bitlen (n div 2)))"

declare bitlen.simps [simp del]

definition pow2 :: "int \<Rightarrow> real" where
  "pow2 k = (if 0 \<le> k then 2 ^ nat k else 1 / 2 ^ nat (- k))"

definition binade :: "real \<Rightarrow> int" where
  "binade x =
     (if 1 \<le> \<bar>x\<bar> then int (bitlen (nat \<lfloor>\<bar>x\<bar>\<rfloor>)) - 1
      else - int (bitlen (nat (\<lceil>1 / \<bar>x\<bar>\<rceil> - 1))))"

definition quantum :: "real \<Rightarrow> real" where
  "quantum x = pow2 (max (binade x) (- 1022) - 52)"

definition nearest :: "real \<Rightarrow> real" where
  "nearest x = (if x = 0 then 0 else real_of_int (round_half_even (x / quantum x)) * quantum x)"

definition fl :: "real \<Rightarrow> pyfloat" where
  "fl x =
     (let y = nearest x
      in if pow2 1024 \<le> y then PosInf else if y \<le> - pow2 1024 then NegInf else Finite y)"

text \<open>
  The operations of the script on floats: \<^verbatim>\<open>a * b\<close>, \<^verbatim>\<open>a - b\<close> and \<^verbatim>\<open>a / b\<close> round the
  exact result and follow IEEE 754 on infinities and NaN, but \<^verbatim>\<open>a / b\<close> raises
  \<^verbatim>\<open>ZeroDivisionError\<close> when \<^verbatim>\<open>b\<close> is zero, whatever \<^verbatim>\<open>a\<close> is.
\<close>

fun fneg :: "pyfloat \<Rightarrow> pyfloat" where
  "fneg (Finite a) = Finite (- a)"
| "fneg PosInf = NegInf"
| "fneg NegInf = PosInf"
| "fneg NaN = NaN"

fun fmul :: "pyfloat \<Rightarrow> pyfloat \<Rightarrow> pyfloat" where
  "fmul (Finite a) (Finite b) = fl (a * b)"
| "fmul NaN y = NaN"
| "fmul x NaN = NaN"
| "fmul (Finite a) y = (if a = 0 then NaN else if 0 < a then y else fneg y)"
| "fmul x (Finite b) = (if b = 0 then NaN else if 0 < b then x else fneg x)"
| "fmul PosInf y = y"
| "fmul NegInf y = fneg y"

fun fsub :: "pyfloat \<Rightarrow> pyfloat \<Rightarrow> pyfloat" where
  "fsub (Finite a) (Finite b) = fl (a - b)"
| "fsub NaN y = NaN"
| "fsub x NaN = NaN"
| "fsub (Finite a) y = fneg y"
| "fsub x (Finite b) = x"
| "fsub PosInf NegInf = PosInf"
| "fsub NegInf PosInf = NegInf"
| "fsub x y = NaN"

fun fdiv :: "pyfloat \<Rightarrow> pyfloat \<Rightarrow> py_error + pyfloat" where
  "fdiv x (Finite b) =
     (if b = 0 then Inl ZeroDivisionError
      else case x of
             Finite a \<Rightarrow> Inr (fl (a / b))
           | PosInf \<Rightarrow> Inr (if 0 < b then PosInf else NegInf)
           | NegInf \<Rightarrow> Inr (if 0 < b then NegInf else PosInf)
           | NaN \<Rightarrow> Inr NaN)"
| "fdiv NaN y = Inr NaN"
| "fdiv x NaN = Inr NaN"
| "fdiv (Finite a) y = Inr (Finite 0)"
| "fdiv x y = Inr NaN"

text \<open>\<^verbatim>\<open>x > 0\<close>: false for NaN.\<close>

fun gt_zero :: "pyfloat \<Rightarrow> bool" where
  "gt_zero (Finite a) = (0 < a)"
| "gt_zero PosInf = True"
| "gt_zero x = False"

text \<open>
  \<^verbatim>\<open>math.ceil(x)\<close> is an integer; it raises \<^verbatim>\<open>OverflowError\<close> on an infinity and
  \<^verbatim>\<open>ValueError\<close> on NaN.
\<close>

fun py_ceil :: "pyfloat \<Rightarrow> py_error + int" where
  "py_ceil (Finite a) = Inr \<lceil>a\<rceil>"
| "py_ceil NaN = Inl ValueError"
| "py_ceil x = Inl OverflowError"

text \<open>
  An integer operand of a float operation is converted to the nearest double, and
  \<^verbatim>\<open>a / b\<close> on two integers is the nearest double of the exact quotient; both raise
  \<^verbatim>\<open>OverflowError\<close> when that double would be an infinity.
\<close>

definition finite_or_overflow :: "pyfloat \<Rightarrow> py_error + pyfloat" where
  "finite_or_overflow x = (case x of Finite y \<Rightarrow> Inr (Finite y) | _ \<Rightarrow> Inl OverflowError)"

definition float_of_int :: "int \<Rightarrow> py_error + pyfloat" where
  "float_of_int n = finite_or_overflow (fl (real_of_int n))"

definition int_truediv :: "int \<Rightarrow> int \<Rightarrow> py_error + pyfloat" where
  "int_truediv a b =
     (if b = 0 then Inl ZeroDivisionError
      else finite_or_overflow (fl (real_of_int a / real_of_int b)))"

text \<open>
  \<^verbatim>\<open>round_up_to_4_dec\<close> on doubles: \<^verbatim>\<open>factor = 10_000\<close> is an integer, so
  \<^verbatim>\<open>x * factor\<close> is a float product with the converted factor, and
  \<^verbatim>\<open>math.ceil(x * factor) / factor\<close> divides two integers.
\<close>

fun round_up_to_4_dec_f64 :: "pyfloat option \<Rightarrow> py_error + pyfloat option" where
  "round_up_to_4_dec_f64 None = Inr None"
| "round_up_to_4_dec_f64 (Some x) =
     and_then (float_of_int 10000)
       (\<lambda>f. and_then (py_ceil (fmul x f))
       (\<lambda>n. and_then (int_truediv n 10000)
       (\<lambda>r. Inr (Some r))))"

text \<open>
  Step 1, the required capacity:
  \<^verbatim>\<open>
  initial_mwh = load_mw * discharge_h
  after_dod_mwh = round_up_to_4_dec(initial_mwh / (dod_percent / 100.0))
  after_rte_mwh = round_up_to_4_dec(after_dod_mwh / (rte_percent / 100.0))
  after_other_eff_mwh = round_up_to_4_dec(after_rte_mwh / (other_eff_percent / 100.0))
  required_bess_mwh = after_other_eff_mwh
  \<close>
  The fields of the inputs hold doubles. \<open>rounded_quotient a p\<close> is
  \<^verbatim>\<open>round_up_to_4_dec(a / (p / 100.0))\<close>, used as a float by the next line: a \<^verbatim>\<open>None\<close>
  there would raise \<^verbatim>\<open>TypeError\<close>.
\<close>

definition rounded_quotient :: "pyfloat \<Rightarrow> real \<Rightarrow> py_error + pyfloat" where
  "rounded_quotient a p =
     and_then (fdiv (Finite p) (Finite 100))
       (\<lambda>d. and_then (fdiv a d)
       (\<lambda>q. and_then (round_up_to_4_dec_f64 (Some q))
       (\<lambda>r. case r of None \<Rightarrow> Inl TypeError | Some v \<Rightarrow> Inr v)))"

definition initial_mwh :: "inputs \<Rightarrow> pyfloat" where
  "initial_mwh i = fmul (Finite (load_mw i)) (Finite (discharge_h i))"

definition after_dod_mwh :: "inputs \<Rightarrow> py_error + pyfloat" where
  "after_dod_mwh i = rounded_quotient (initial_mwh i) (dod_percent i)"

definition after_rte_mwh :: "inputs \<Rightarrow> py_error + pyfloat" where
  "after_rte_mwh i = and_then (after_dod_mwh i) (\<lambda>a. rounded_quotient a (rte_percent i))"

definition after_other_eff_mwh :: "inputs \<Rightarrow> py_error + pyfloat" where
  "after_other_eff_mwh i =
     and_then (after_rte_mwh i) (\<lambda>a. rounded_quotient a (other_eff_percent i))"

definition required_bess_mwh :: "inputs \<Rightarrow> py_error + pyfloat" where
  "required_bess_mwh i = after_other_eff_mwh i"

text \<open>
  The first lines of the loop body, for a model of the catalog:
  \<^verbatim>\<open>
      cap_kwh = model["capacity_kwh"]
      if required_bess_mwh > 0:
          units = math.ceil(required_bess_mwh * 1000.0 / cap_kwh)
      else:
          units = 0
      total_mwh = units * cap_kwh / 1000.0
      oversize_mwh = total_mwh - required_bess_mwh if required_bess_mwh is not None else None
  \<close>
  The capacity is the double of the catalog's literal.
\<close>

definition cap_kwh_f64 :: "battery \<Rightarrow> real" where
  "cap_kwh_f64 model = nearest (capacity_kwh model)"

definition units_f64 :: "pyfloat \<Rightarrow> battery \<Rightarrow> py_error + int" where
  "units_f64 required model =
     (if gt_zero required
      then and_then (fdiv (fmul required (Finite 1000)) (Finite (cap_kwh_f64 model))) py_ceil
      else Inr 0)"

definition total_mwh_f64 :: "int \<Rightarrow> battery \<Rightarrow> py_error + pyfloat" where
  "total_mwh_f64 units model =
     and_then (float_of_int units)
       (\<lambda>u. fdiv (fmul u (Finite (cap_kwh_f64 model))) (Finite 1000))"

definition oversize_mwh_f64 :: "pyfloat \<Rightarrow> pyfloat \<Rightarrow> pyfloat" where
  "oversize_mwh_f64 total_mwh required = fsub total_mwh required"

section \<open>Properties\<close>

subsection \<open>Sequencing and division\<close>

lemma and_then_Inr [simp]: "and_then (Inr v) f = f v"
  by (simp add: and_then_def)

lemma and_then_Inl [simp]: "and_then (Inl e) f = Inl e"
  by (simp add: and_then_def)

lemma truediv_nonzero: "b \<noteq> 0 \<Longrightarrow> truediv a b = Inr (a / b)"
  by (simp add: truediv_def)

lemma ceil_div_nonzero: "b \<noteq> 0 \<Longrightarrow> ceil_div a b = Inr \<lceil>a / b\<rceil>"
  by (simp add: ceil_div_def truediv_nonzero)

subsection \<open>Rounding to the nearest double\<close>

text \<open>
  \<open>binade\<close> is the binary exponent, and \<open>nearest x\<close> is a multiple of the spacing
  \<open>quantum x\<close> at most half a spacing away from \<open>x\<close>.
\<close>

lemma bitlen_bounds: "0 < n \<Longrightarrow> 2 ^ (bitlen n - 1) \<le> n \<and> n < 2 ^ bitlen n"
proof (induction n rule: bitlen.induct)
  case (1 n)
  show ?case
  proof (cases "n div 2 = 0")
    case True
    with "1.prems" have "n = 1" by (simp add: div_eq_0_iff) 
    then show ?thesis by (simp add: bitlen.simps)
  next
    case False
    then have p: "0 < n div 2" by simp
    from "1.prems" have nz: "n \<noteq> 0" by simp
    from "1.IH" [OF nz p] have ih: "2 ^ (bitlen (n div 2) - 1) \<le> n div 2" "n div 2 < 2 ^ bitlen (n div 2)"
      by simp_all
    have b: "bitlen n = Suc (bitlen (n div 2))" using nz by (subst bitlen.simps) simp
    have bp: "0 < bitlen (n div 2)" using False by (subst bitlen.simps) simp
    have "2 ^ (bitlen n - 1) = 2 * 2 ^ (bitlen (n div 2) - 1)"
      using b bp by (cases "bitlen (n div 2)") simp_all
    also have "\<dots> \<le> 2 * (n div 2)" using ih(1) by simp
    also have "\<dots> \<le> n" by simp
    finally have lo: "2 ^ (bitlen n - 1) \<le> n" .
    have "n < 2 * (n div 2) + 2" by presburger
    also have "\<dots> \<le> 2 * 2 ^ bitlen (n div 2)" using ih(2) by simp
    finally have hi: "n < 2 ^ bitlen n" using b by simp
    from lo hi show ?thesis by simp
  qed
qed

lemma pow2_pos: "0 < pow2 k"
  by (simp add: pow2_def)

lemma pow2_nat: "pow2 (int n) = 2 ^ n"
  by (simp add: pow2_def)

lemma pow2_neg_nat: "pow2 (- int n) = 1 / 2 ^ n"
  by (simp add: pow2_def)

lemma pow2_powi: "pow2 k = 2 powi k"
  by (simp add: pow2_def power_int_def field_simps)

lemma pow2_Suc: "pow2 (k + 1) = 2 * pow2 k"
  by (simp add: pow2_powi power_int_add)

lemma binade_bounds:
  assumes "x \<noteq> 0"
  shows "pow2 (binade x) \<le> \<bar>x\<bar> \<and> \<bar>x\<bar> < pow2 (binade x + 1)"
proof (cases "1 \<le> \<bar>x\<bar>")
  case True
  let ?n = "nat \<lfloor>\<bar>x\<bar>\<rfloor>"
  have n: "0 < ?n" using True by simp
  have e: "binade x = int (bitlen ?n) - 1" using True by (simp add: binade_def)
  have bp: "0 < bitlen ?n" using n by (subst bitlen.simps) simp
  then have e': "binade x = int (bitlen ?n - 1)" using e by simp
  have e'': "binade x + 1 = int (bitlen ?n)" using e by simp
  from bitlen_bounds [OF n] have b: "2 ^ (bitlen ?n - 1) \<le> ?n" "?n < 2 ^ bitlen ?n" by simp_all
  have "real ?n \<le> \<bar>x\<bar>" using True by simp
  moreover have "(2::real) ^ (bitlen ?n - 1) \<le> real ?n" using b(1)
    by (metis of_nat_le_iff of_nat_numeral of_nat_power)
  ultimately have lo: "pow2 (binade x) \<le> \<bar>x\<bar>" unfolding e' pow2_nat by linarith
  have "\<bar>x\<bar> < real ?n + 1" using True by linarith
  moreover have "real ?n + 1 \<le> 2 ^ bitlen ?n" using b(2)
    by (metis Suc_leI of_nat_Suc of_nat_le_iff of_nat_numeral of_nat_power add.commute plus_1_eq_Suc)
  ultimately have hi: "\<bar>x\<bar> < pow2 (binade x + 1)" unfolding e'' pow2_nat by linarith
  from lo hi show ?thesis by simp
next
  case False
  then have lt: "\<bar>x\<bar> < 1" by simp
  have pos: "0 < \<bar>x\<bar>" using assms by simp
  let ?m = "\<lceil>1 / \<bar>x\<bar>\<rceil>"
  let ?n = "nat (?m - 1)"
  have inv: "1 < 1 / \<bar>x\<bar>" using lt pos by simp
  then have m2: "2 \<le> ?m" by linarith
  then have n: "0 < ?n" by simp
  have e: "binade x = - int (bitlen ?n)" using False by (simp add: binade_def)
  have bp: "0 < bitlen ?n" using n by (subst bitlen.simps) simp
  from bitlen_bounds [OF n] have b: "2 ^ (bitlen ?n - 1) \<le> ?n" "?n < 2 ^ bitlen ?n" by simp_all
  have "0 \<le> ?m - 1" using m2 by linarith
  then have "real ?n = real_of_int (?m - 1)" by (rule of_nat_nat)
  then have rn: "real ?n = real_of_int ?m - 1" by simp
  have up: "1 / \<bar>x\<bar> \<le> real_of_int ?m" by (rule le_of_int_ceiling)
  have dn: "real_of_int ?m - 1 < 1 / \<bar>x\<bar>" by linarith
  have "real ?n + 1 \<le> 2 ^ bitlen ?n" using b(2)
    by (metis Suc_leI of_nat_Suc of_nat_le_iff of_nat_numeral of_nat_power add.commute plus_1_eq_Suc)
  then have "1 / \<bar>x\<bar> \<le> 2 ^ bitlen ?n" using up rn by linarith
  then have "1 \<le> 2 ^ bitlen ?n * \<bar>x\<bar>" using pos by (simp add: pos_divide_le_eq)
  then have lo: "pow2 (binade x) \<le> \<bar>x\<bar>" unfolding e pow2_neg_nat
    by (simp add: pos_divide_le_eq mult.commute)
  have "(2::real) ^ (bitlen ?n - 1) \<le> real ?n" using b(1)
    by (metis of_nat_le_iff of_nat_numeral of_nat_power)
  then have "2 ^ (bitlen ?n - 1) < 1 / \<bar>x\<bar>" using dn rn by linarith
  then have "2 ^ (bitlen ?n - 1) * \<bar>x\<bar> < 1" using pos by (simp add: pos_less_divide_eq)
  then have "\<bar>x\<bar> < 1 / 2 ^ (bitlen ?n - 1)"
    by (simp add: pos_less_divide_eq mult.commute)
  moreover have "binade x + 1 = - int (bitlen ?n - 1)" using e bp by simp
  ultimately have hi: "\<bar>x\<bar> < pow2 (binade x + 1)" by (simp only: pow2_neg_nat)
  from lo hi show ?thesis by simp
qed

lemma round_half_even_error: "\<bar>real_of_int (round_half_even r) - r\<bar> \<le> 1 / 2"
  by (auto simp: round_half_even_def Let_def)

lemma quantum_pos: "0 < quantum x"
  by (simp add: quantum_def pow2_pos)

lemma nearest_error: "\<bar>nearest x - x\<bar> \<le> quantum x / 2"
proof (cases "x = 0")
  case True
  then show ?thesis using quantum_pos [of x] by (simp add: nearest_def)
next
  case False
  let ?q = "quantum x"
  have q: "0 < ?q" by (rule quantum_pos)
  have "nearest x - x = (real_of_int (round_half_even (x / ?q)) - x / ?q) * ?q"
    using False q by (simp add: nearest_def left_diff_distrib)
  then have "\<bar>nearest x - x\<bar> = \<bar>real_of_int (round_half_even (x / ?q)) - x / ?q\<bar> * ?q"
    using q by (simp add: abs_mult)
  also have "\<dots> \<le> 1 / 2 * ?q"
    using round_half_even_error [of "x / ?q"] q by (intro mult_right_mono) simp_all
  finally show ?thesis by simp
qed

lemma nearest_multiple: "\<exists>n::int. nearest x = real_of_int n * quantum x"
  by (cases "x = 0") (auto simp: nearest_def intro: exI [of _ 0])

text \<open>Unfolding these evaluates a double operation on numerals.\<close>

lemmas f64_eval = nearest_def quantum_def binade_def pow2_def bitlen.simps round_half_even_def
  fl_def Let_def float_of_int_def int_truediv_def finite_or_overflow_def

lemmas chain_eval = default_inputs_def initial_mwh_def after_dod_mwh_def after_rte_mwh_def
  after_other_eff_mwh_def required_bess_mwh_def rounded_quotient_def

lemmas row_eval = units_f64_def total_mwh_f64_def oversize_mwh_f64_def cap_kwh_f64_def
  battery_models_def

subsection \<open>The PCS lookup\<close>

lemma select_pcs_rating_cases:
  "select_pcs_rating x =
     (if x \<le> 1.25 then 1.25 else if x \<le> 1.5 then 1.5 else if x \<le> 1.75 then 1.75
      else if x \<le> 2 then 2 else if x \<le> 2.5 then 2.5 else 5)"
  by (simp add: select_pcs_rating_def pcs_sizes_def)

lemma select_pcs_rating_pos: "0 < select_pcs_rating x"
  by (simp add: select_pcs_rating_cases)

text \<open>
  C6. For every real \<open>x\<close>, \<open>select_pcs_rating x\<close> is the smallest value of the ordered
  list 1.25, 1.50, 1.75, 2.00, 2.50, 5.00 that is at least \<open>x\<close>, and the largest value
  5.00 when no value of the list is at least \<open>x\<close>. In particular 1.25 gives 1.25, 1.26
  gives 1.5 and 6.0 gives 5.0.
\<close>

theorem select_pcs_rating_ceiling_lookup:
  "pcs_sizes = [1.25, 1.50, 1.75, 2.00, 2.50, 5.00] \<and>
   select_pcs_rating x \<in> set pcs_sizes \<and>
   ((\<exists>s\<in>set pcs_sizes. x \<le> s) \<longrightarrow>
      x \<le> select_pcs_rating x \<and> (\<forall>s\<in>set pcs_sizes. x \<le> s \<longrightarrow> select_pcs_rating x \<le> s)) \<and>
   ((\<forall>s\<in>set pcs_sizes. \<not> x \<le> s) \<longrightarrow> select_pcs_rating x = 5.00) \<and>
   select_pcs_rating 1.25 = 1.25 \<and> select_pcs_rating 1.26 = 1.5 \<and> select_pcs_rating 6.0 = 5.0"
  by (simp add: select_pcs_rating_cases pcs_sizes_def)

theorem select_pcs_rating_ceiling_lookup_witness:
  "(\<exists>s\<in>set pcs_sizes. 1.3 \<le> s) \<and> 1.3 \<le> select_pcs_rating 1.3 \<and>
   select_pcs_rating 1.3 \<le> 1.5 \<and> select_pcs_rating 7 = 5"
  using select_pcs_rating_ceiling_lookup [of "1.3"] select_pcs_rating_ceiling_lookup [of 7]
  by (simp add: pcs_sizes_def)

subsection \<open>Rounding up to four decimals\<close>

text \<open>
  C2. The claim: \<open>round_up_to_4_dec\<close> is the spreadsheet's ROUNDUP(x, 4), which leaves a
  multiple of 0.0001 unchanged and rounds a negative \<open>x\<close> away from zero. The ceiling
  rounds towards plus infinity instead: at \<open>x = -1.23456\<close> the function returns
  \<open>-1.2345\<close>, of smaller magnitude than \<open>x\<close>, where ROUNDUP gives \<open>-1.2346\<close>.
\<close>

theorem round_up_to_4_dec_negative_toward_zero:
  "round_up_to_4_dec (Some (- 1.23456)) = Some (- 1.2345) \<and>
   \<bar>- 1.2345 :: real\<bar> < \<bar>- 1.23456\<bar>"
  by (simp add: factor_def)

text \<open>On doubles the function returns the same value at that input.\<close>

lemma round_up_to_4_dec_f64_negative:
  "round_up_to_4_dec_f64 (Some (Finite (nearest (- 1.23456))))
     = Inr (Some (Finite (nearest (- 1.2345)))) \<and>
   \<bar>nearest (- 1.2345)\<bar> < \<bar>nearest (- 1.23456)\<bar>"
  by (simp add: f64_eval)

text \<open>
  C7. The claim: for every non-negative \<open>x\<close> the result is at least \<open>x\<close>, less than
  0.0001 above it, and a multiple of 0.0001 is returned unchanged. On doubles the
  product \<open>x * 10000\<close> is rounded before the ceiling is taken. For the non-negative
  double 0.10500000000000001 the product rounds to 1050.0 and the result is 0.105,
  below the input. The double 1.12 is bumped to 1.1201, and 1.1201, itself a result of
  the function, is bumped again to 1.1202.
\<close>

theorem round_up_to_4_dec_f64_below_input:
  "0 \<le> nearest 0.10500000000000001 \<and>
   round_up_to_4_dec_f64 (Some (Finite (nearest 0.10500000000000001)))
     = Inr (Some (Finite (nearest 0.105))) \<and>
   nearest 0.105 < nearest 0.10500000000000001 \<and>
   round_up_to_4_dec_f64 (Some (Finite (nearest 1.12))) = Inr (Some (Finite (nearest 1.1201))) \<and>
   round_up_to_4_dec_f64 (Some (Finite (nearest 1.1201))) = Inr (Some (Finite (nearest 1.1202)))"
  by (simp add: f64_eval)

subsection \<open>The transformer label\<close>

text \<open>The label of every input: the lookup is the ceiling lookup over the candidates, the
  text is the two-decimal print followed by MVA twice.\<close>

lemma select_transformer_mva_cases:
  "select_transformer_mva x =
     (if x \<le> 1.25 then ''1.25MVAMVA'' else if x \<le> 1.5 then ''1.50MVAMVA''
      else if x \<le> 1.75 then ''1.75MVAMVA'' else if x \<le> 2 then ''2.00MVAMVA''
      else if x \<le> 2.5 then ''2.50MVAMVA'' else if x \<le> 3.5 then ''3.50MVAMVA''
      else ''5.00MVAMVA'')"
  by (simp add: select_transformer_mva_def candidates_def rstrip_def format_2f_def
      round_half_even_def decimal.simps digit_char_def)

text \<open>
  C1. The claim: the label is the selected value printed without trailing zeros and
  without a trailing point, followed by MVA (2MVA, 1.75MVA). The source strips the
  zeros and the point from a string that already ends in MVA, so nothing is stripped,
  and then appends MVA again: 2.0 gives 2.00MVAMVA and 1.75 gives 1.75MVAMVA.
\<close>

theorem select_transformer_mva_untrimmed:
  "select_transformer_mva 2.0 = ''2.00MVAMVA'' \<and> select_transformer_mva 1.75 = ''1.75MVAMVA''"
  by (simp add: select_transformer_mva_def candidates_def rstrip_def format_2f_def
      round_half_even_def decimal.simps digit_char_def)

subsection \<open>The configuration rows\<close>

text \<open>
  A model of non-zero capacity gives a row, and the guard on the PCS rating never takes
  its else branch.
\<close>

lemma config_row_of_eq:
  assumes "capacity_kwh model \<noteq> 0"
  shows "config_row_of required discharge_power crate model =
     Inr \<lparr>battery_model = name model,
          unit_capacity_kwh = capacity_kwh model,
          number_of_units = (if required > 0 then \<lceil>required * 1000 / capacity_kwh model\<rceil> else 0),
          total_installed_capacity_mwh =
            real_of_int (if required > 0 then \<lceil>required * 1000 / capacity_kwh model\<rceil> else 0)
              * capacity_kwh model / 1000,
          oversizing_vs_required_mwh =
            real_of_int (if required > 0 then \<lceil>required * 1000 / capacity_kwh model\<rceil> else 0)
              * capacity_kwh model / 1000 - required,
          oversizing_percent =
            (if required > 0
             then (real_of_int \<lceil>required * 1000 / capacity_kwh model\<rceil> * capacity_kwh model / 1000
                     - required) / required * 100
             else 0),
          container_c_rate = crate,
          pcs_rating_per_unit_mw = select_pcs_rating (crate * capacity_kwh model / 1000),
          pcs_quantity_for_discharge_power =
            \<lceil>discharge_power / select_pcs_rating (crate * capacity_kwh model / 1000)\<rceil>,
          transformer_per_unit = select_transformer_mva (crate * capacity_kwh model / 1000)\<rparr>"
proof -
  have p: "select_pcs_rating (crate * capacity_kwh model / 1000) \<noteq> 0"
    using select_pcs_rating_pos [of "crate * capacity_kwh model / 1000"] by simp
  show ?thesis
  proof (cases "required > 0")
    case True
    then have "required \<noteq> 0" by simp
    with True assms p show ?thesis
      by (simp add: config_row_of_def Let_def ceil_div_nonzero truediv_nonzero select_pcs_rating_pos)
  next
    case False
    with assms p show ?thesis
      by (simp add: config_row_of_def Let_def ceil_div_nonzero truediv_nonzero select_pcs_rating_pos)
  qed
qed

lemma build_rows_Inr:
  assumes "\<forall>model\<in>set models. capacity_kwh model \<noteq> 0"
  shows "build_rows required discharge_power crate models =
     Inr (map (\<lambda>model. projr (config_row_of required discharge_power crate model)) models)"
  using assms by (induction models) (simp_all add: config_row_of_eq)

lemma catalog_capacity_pos: "\<forall>model\<in>set battery_models. 0 < capacity_kwh model"
  by (simp add: battery_models_def)

text \<open>
  C10. \<open>select_pcs_rating\<close> always returns a member of the list 1.25, 1.50, 1.75, 2.0,
  2.5, 5.0, so its result is at least 1.25 and positive for every input; the branch
  \<open>pcs_quantity = 0\<close> for a rating that is not positive is never taken, and in every
  row of the catalog \<open>pcs_quantity = \<lceil>required_discharge_power_mw / pcs_rating_mw\<rceil>\<close>.
\<close>

theorem pcs_rating_positive_and_quantity:
  "select_pcs_rating x \<in> set pcs_sizes \<and> 1.25 \<le> select_pcs_rating x \<and> 0 < select_pcs_rating x \<and>
   (\<exists>rs. build_rows required discharge_power crate battery_models = Inr rs \<and>
      length rs = length battery_models \<and>
      (\<forall>row\<in>set rs.
         pcs_rating_per_unit_mw row
           = select_pcs_rating (container_c_rate row * unit_capacity_kwh row / 1000) \<and>
         0 < pcs_rating_per_unit_mw row \<and>
         pcs_quantity_for_discharge_power row
           = \<lceil>discharge_power / pcs_rating_per_unit_mw row\<rceil>))"
proof -
  let ?f = "\<lambda>model. projr (config_row_of required discharge_power crate model)"
  have nz: "\<forall>model\<in>set battery_models. capacity_kwh model \<noteq> 0"
    using catalog_capacity_pos by fastforce
  have e: "build_rows required discharge_power crate battery_models = Inr (map ?f battery_models)"
    using build_rows_Inr [OF nz] .
  have r: "pcs_rating_per_unit_mw (?f model)
           = select_pcs_rating (container_c_rate (?f model) * unit_capacity_kwh (?f model) / 1000) \<and>
         0 < pcs_rating_per_unit_mw (?f model) \<and>
         pcs_quantity_for_discharge_power (?f model)
           = \<lceil>discharge_power / pcs_rating_per_unit_mw (?f model)\<rceil>"
    if "model \<in> set battery_models" for model
  proof -
    have q: "capacity_kwh model \<noteq> 0" using that nz by blast
    show ?thesis by (simp add: config_row_of_eq [OF q] select_pcs_rating_pos)
  qed
  have s: "select_pcs_rating x \<in> set pcs_sizes \<and> 1.25 \<le> select_pcs_rating x"
    by (simp add: select_pcs_rating_cases pcs_sizes_def)
  have a: "\<forall>row\<in>set (map ?f battery_models).
         pcs_rating_per_unit_mw row
           = select_pcs_rating (container_c_rate row * unit_capacity_kwh row / 1000) \<and>
         0 < pcs_rating_per_unit_mw row \<and>
         pcs_quantity_for_discharge_power row
           = \<lceil>discharge_power / pcs_rating_per_unit_mw row\<rceil>"
  proof
    fix row
    assume "row \<in> set (map ?f battery_models)"
    then obtain model where "model \<in> set battery_models" "row = ?f model" by auto
    then show "pcs_rating_per_unit_mw row
           = select_pcs_rating (container_c_rate row * unit_capacity_kwh row / 1000) \<and>
         0 < pcs_rating_per_unit_mw row \<and>
         pcs_quantity_for_discharge_power row
           = \<lceil>discharge_power / pcs_rating_per_unit_mw row\<rceil>"
      using r by blast
  qed
  have l: "length (map ?f battery_models) = length battery_models" by simp
  from s select_pcs_rating_pos [of x] e l a show ?thesis by blast
qed

theorem pcs_rating_positive_and_quantity_witness:
  "select_pcs_rating (- 3) = 1.25 \<and>
   (\<exists>rs. build_rows 9.9267 0.99 0.25 battery_models = Inr rs \<and>
      map pcs_rating_per_unit_mw rs = [1.25, 1.25, 1.5] \<and>
      map pcs_quantity_for_discharge_power rs = [1, 1, 1])"
  using pcs_rating_positive_and_quantity [of "- 3" "9.9267" "0.99" "0.25"]
  by (simp add: battery_models_def config_row_of_eq select_pcs_rating_cases)

subsection \<open>The capacity chain on doubles\<close>

text \<open>
  A product that overflows is an infinity, and rounding it up raises
  \<^verbatim>\<open>OverflowError\<close> at \<^verbatim>\<open>math.ceil\<close>: the chain then has no value.
\<close>

lemma round_up_to_4_dec_f64_infinity:
  "round_up_to_4_dec_f64 (Some PosInf) = Inl OverflowError"
  by (simp add: f64_eval)

text \<open>
  C5. The claim: for non-negative \<open>load_mw\<close> and \<open>discharge_h\<close> and percentages in
  (0, 100] the chain does not decrease. With \<open>load_mw = 0.07\<close>, \<open>discharge_h = 1.5\<close> and
  every percentage 100 the script has \<open>initial_mwh = 0.10500000000000001\<close> and
  \<open>after_dod_mwh = 0.105\<close>, which is smaller.
\<close>

theorem capacity_chain_f64_decreases:
  "0 \<le> nearest 0.07 \<and>
   initial_mwh (default_inputs\<lparr>load_mw := nearest 0.07, discharge_h := 1.5,
                  dod_percent := 100, rte_percent := 100, other_eff_percent := 100\<rparr>)
     = Finite (nearest 0.10500000000000001) \<and>
   after_dod_mwh (default_inputs\<lparr>load_mw := nearest 0.07, discharge_h := 1.5,
                    dod_percent := 100, rte_percent := 100, other_eff_percent := 100\<rparr>)
     = Inr (Finite (nearest 0.105)) \<and>
   nearest 0.105 < nearest 0.10500000000000001"
  by (simp add: chain_eval f64_eval)

subsection \<open>The unit count on doubles\<close>

text \<open>
  C3. The claim: the installed total covers a positive requirement and the unit count
  is the least that does. With \<open>load_mw = 87.49\<close>, \<open>discharge_h = 2.5\<close>,
  \<open>dod_percent = 97\<close> and \<open>rte_percent = 99.9\<close> the requirement is 225.7155 MWh; the
  5015.9 kWh model gets 45 units and a total of 225.71549999999996 MWh, below the
  requirement. With \<open>load_mw = 59.73\<close>, \<open>discharge_h = 1\<close>, \<open>dod_percent = 92\<close> and
  \<open>rte_percent = 99.9\<close> the requirement is 64.989 MWh; the 261 kWh model gets 250
  units, where the total of 249 units, computed the same way, is 64.989 MWh.
\<close>

theorem unit_count_f64_undersized_and_not_minimal:
  "required_bess_mwh (default_inputs\<lparr>load_mw := nearest 87.49, discharge_h := 2.5,
                        dod_percent := 97, rte_percent := nearest 99.9\<rparr>)
     = Inr (Finite (nearest 225.7155)) \<and>
   0 < nearest 225.7155 \<and>
   units_f64 (Finite (nearest 225.7155)) (battery_models ! 2) = Inr 45 \<and>
   total_mwh_f64 45 (battery_models ! 2) = Inr (Finite (nearest 225.71549999999996)) \<and>
   nearest 225.71549999999996 < nearest 225.7155 \<and>
   required_bess_mwh (default_inputs\<lparr>load_mw := nearest 59.73, discharge_h := 1,
                        dod_percent := 92, rte_percent := nearest 99.9\<rparr>)
     = Inr (Finite (nearest 64.989)) \<and>
   units_f64 (Finite (nearest 64.989)) (battery_models ! 0) = Inr 250 \<and>
   total_mwh_f64 249 (battery_models ! 0) = Inr (Finite (nearest 64.989))"
  by (simp add: chain_eval row_eval f64_eval)

text \<open>
  C9. The claim: for a positive requirement the oversizing is at least 0 and less than
  the capacity of one unit. With \<open>load_mw = 11.99\<close>, \<open>discharge_h = 3.5\<close>,
  \<open>dod_percent = 60\<close> and \<open>rte_percent = 99.6\<close> the requirement is 70.2226 MWh; the
  5015.9 kWh model gets 15 units, a total of 75.2385 MWh and an oversizing of
  5.015900000000002 MWh, more than the 5.0159 MWh of one unit. With the requirement of
  225.7155 MWh and the same model (45 units, 225.71549999999996 MWh) the oversizing is
  negative.
\<close>

theorem oversizing_f64_outside_bounds:
  "required_bess_mwh (default_inputs\<lparr>load_mw := nearest 11.99, discharge_h := 3.5,
                        dod_percent := 60, rte_percent := nearest 99.6\<rparr>)
     = Inr (Finite (nearest 70.2226)) \<and>
   0 < nearest 70.2226 \<and>
   units_f64 (Finite (nearest 70.2226)) (battery_models ! 2) = Inr 15 \<and>
   total_mwh_f64 15 (battery_models ! 2) = Inr (Finite (nearest 75.2385)) \<and>
   oversize_mwh_f64 (Finite (nearest 75.2385)) (Finite (nearest 70.2226))
     = Finite (nearest 5.015900000000002) \<and>
   cap_kwh_f64 (battery_models ! 2) / 1000 < nearest 5.015900000000002 \<and>
   oversize_mwh_f64 (Finite (nearest 225.71549999999996)) (Finite (nearest 225.7155))
     = Finite (nearest (- 0.00000000000002842170943040401)) \<and>
   nearest (- 0.00000000000002842170943040401) < 0"
  by (simp add: row_eval chain_eval f64_eval)

subsection \<open>The best model\<close>

text \<open>
  The scan returns the first position of the minimum of the values seen so far: \<open>ps\<close>
  are the values already scanned, \<open>best\<close> the position kept and \<open>v\<close> its value.
\<close>

lemma idxmin_scan_first_minimum:
  assumes "best < length ps" "ps ! best = v" "\<forall>j<length ps. v \<le> ps ! j"
    "\<forall>j<best. v < ps ! j" "k = length ps"
  shows "idxmin_scan best v k xs < length (ps @ xs) \<and>
         (\<forall>j<length (ps @ xs). (ps @ xs) ! idxmin_scan best v k xs \<le> (ps @ xs) ! j) \<and>
         (\<forall>j<idxmin_scan best v k xs. (ps @ xs) ! idxmin_scan best v k xs < (ps @ xs) ! j)"
  using assms
proof (induction xs arbitrary: best v k ps)
  case Nil
  then show ?case by simp
next
  case (Cons x xs)
  show ?case
  proof (cases "x < v")
    case True
    have a: "k < length (ps @ [x])" using Cons.prems(5) by simp
    have b: "(ps @ [x]) ! k = x" using Cons.prems(5) by simp
    have c: "\<forall>j<length (ps @ [x]). x \<le> (ps @ [x]) ! j"
      using Cons.prems(3) True by (auto simp: nth_append less_Suc_eq)
    have d: "\<forall>j<k. x < (ps @ [x]) ! j"
      using Cons.prems(3,5) True by (auto simp: nth_append)
    have e: "Suc k = length (ps @ [x])" using Cons.prems(5) by simp
    from Cons.IH [OF a b c d e] True show ?thesis by simp
  next
    case False
    have a: "best < length (ps @ [x])" using Cons.prems(1) by simp
    have b: "(ps @ [x]) ! best = v" using Cons.prems(1,2) by (simp add: nth_append)
    have c: "\<forall>j<length (ps @ [x]). v \<le> (ps @ [x]) ! j"
      using Cons.prems(3) False by (auto simp: nth_append less_Suc_eq)
    have d: "\<forall>j<best. v < (ps @ [x]) ! j"
      using Cons.prems(1,4) by (auto simp: nth_append)
    have e: "Suc k = length (ps @ [x])" using Cons.prems(5) by simp
    from Cons.IH [OF a b c d e] False show ?thesis by simp
  qed
qed

lemma idxmin_first_minimum:
  assumes "xs \<noteq> []"
  shows "\<exists>k. idxmin xs = Inr k \<and> k < length xs \<and> (\<forall>j<length xs. xs ! k \<le> xs ! j) \<and>
           (\<forall>j<k. xs ! k < xs ! j)"
proof -
  from assms obtain y ys where xs: "xs = y # ys" by (cases xs) auto
  have "idxmin_scan 0 y 1 ys < length ([y] @ ys) \<and>
         (\<forall>j<length ([y] @ ys). ([y] @ ys) ! idxmin_scan 0 y 1 ys \<le> ([y] @ ys) ! j) \<and>
         (\<forall>j<idxmin_scan 0 y 1 ys. ([y] @ ys) ! idxmin_scan 0 y 1 ys < ([y] @ ys) ! j)"
    by (rule idxmin_scan_first_minimum) simp_all
  then show ?thesis using xs by simp
qed

text \<open>
  C4. For every table with at least one row (the script's table has one row for each
  of the three catalog models), whatever the oversizing values are, negative ones
  included: a row is selected exactly when \<open>required_bess_mwh > 0\<close>, otherwise the
  result is absent; the selected row has the least \<open>max(oversizing_mwh, 0)\<close> of all
  rows, and every row before it has a strictly larger one, so the first minimal row
  wins.
\<close>

theorem best_fit_first_minimal_row:
  assumes "df_bess \<noteq> []"
  shows "\<exists>b. best_idx_of required df_bess = Inr b \<and> (b \<noteq> None) = (0 < required) \<and>
     (\<forall>k. b = Some k \<longrightarrow>
        k < length df_bess \<and>
        (\<forall>j<length df_bess. max (oversizing_vs_required_mwh (df_bess ! k)) 0
                              \<le> max (oversizing_vs_required_mwh (df_bess ! j)) 0) \<and>
        (\<forall>j<k. max (oversizing_vs_required_mwh (df_bess ! k)) 0
                 < max (oversizing_vs_required_mwh (df_bess ! j)) 0))"
proof (cases "0 < required")
  case True
  let ?xs = "clip_lower 0 (map oversizing_vs_required_mwh df_bess)"
  have ne: "?xs \<noteq> []" using assms by (simp add: clip_lower_def)
  have n: "?xs ! j = max (oversizing_vs_required_mwh (df_bess ! j)) 0" if "j < length df_bess" for j
    using that by (simp add: clip_lower_def max.commute)
  have len: "length ?xs = length df_bess" by (simp add: clip_lower_def)
  from idxmin_first_minimum [OF ne] obtain k where k: "idxmin ?xs = Inr k" "k < length ?xs"
    "\<forall>j<length ?xs. ?xs ! k \<le> ?xs ! j" "\<forall>j<k. ?xs ! k < ?xs ! j" by blast
  have b: "best_idx_of required df_bess = Inr (Some k)"
    using True k(1) by (simp add: best_idx_of_def)
  have "k < length df_bess" using k(2) len by simp
  moreover have "\<forall>j<length df_bess. max (oversizing_vs_required_mwh (df_bess ! k)) 0
                              \<le> max (oversizing_vs_required_mwh (df_bess ! j)) 0"
    using k(2,3) len n by metis
  moreover have "\<forall>j<k. max (oversizing_vs_required_mwh (df_bess ! k)) 0
                 < max (oversizing_vs_required_mwh (df_bess ! j)) 0"
    using k(2,4) len n by (metis less_trans)
  ultimately show ?thesis using b True by simp
next
  case False
  then show ?thesis by (simp add: best_idx_of_def)
qed

text \<open>
  Three tables of three rows. In the first two rows under-size, by 1 and by 2: both
  clamp to 0 and the first wins, where the least unclamped value is in the second row.
  In the second the last row under-sizes by a rounding error and wins against two
  positive oversizings. The third is the first again with no requirement: no row.
\<close>

theorem best_fit_first_minimal_row_witness:
  "map (\<lambda>v. \<lparr>battery_model = [], unit_capacity_kwh = 0, number_of_units = 0,
               total_installed_capacity_mwh = 0, oversizing_vs_required_mwh = v,
               oversizing_percent = 0, container_c_rate = 0, pcs_rating_per_unit_mw = 0,
               pcs_quantity_for_discharge_power = 0, transformer_per_unit = []\<rparr>)
       [- 1, - 2, 3] \<noteq> [] \<and>
   best_idx_of 5
     (map (\<lambda>v. \<lparr>battery_model = [], unit_capacity_kwh = 0, number_of_units = 0,
               total_installed_capacity_mwh = 0, oversizing_vs_required_mwh = v,
               oversizing_percent = 0, container_c_rate = 0, pcs_rating_per_unit_mw = 0,
               pcs_quantity_for_discharge_power = 0, transformer_per_unit = []\<rparr>)
       [- 1, - 2, 3]) = Inr (Some 0) \<and>
   best_idx_of 5
     (map (\<lambda>v. \<lparr>battery_model = [], unit_capacity_kwh = 0, number_of_units = 0,
               total_installed_capacity_mwh = 0, oversizing_vs_required_mwh = v,
               oversizing_percent = 0, container_c_rate = 0, pcs_rating_per_unit_mw = 0,
               pcs_quantity_for_discharge_power = 0, transformer_per_unit = []\<rparr>)
       [0.0495, 1.65346, - 0.00000000000003]) = Inr (Some 2) \<and>
   best_idx_of 0
     (map (\<lambda>v. \<lparr>battery_model = [], unit_capacity_kwh = 0, number_of_units = 0,
               total_installed_capacity_mwh = 0, oversizing_vs_required_mwh = v,
               oversizing_percent = 0, container_c_rate = 0, pcs_rating_per_unit_mw = 0,
               pcs_quantity_for_discharge_power = 0, transformer_per_unit = []\<rparr>)
       [- 1, - 2, 3]) = Inr None"
proof -
  let ?row = "\<lambda>v. \<lparr>battery_model = [], unit_capacity_kwh = 0, number_of_units = 0,
               total_installed_capacity_mwh = 0, oversizing_vs_required_mwh = v,
               oversizing_percent = 0, container_c_rate = 0, pcs_rating_per_unit_mw = 0,
               pcs_quantity_for_discharge_power = 0, transformer_per_unit = []\<rparr>"
  have ne: "map ?row [- 1, - 2, 3] \<noteq> []" by simp
  from best_fit_first_minimal_row [OF ne, of 5]
  obtain b where b: "best_idx_of 5 (map ?row [- 1, - 2, 3]) = Inr b" "b \<noteq> None" by auto
  have "best_idx_of 5 (map ?row [- 1, - 2, 3]) = Inr (Some 0)"
    by (simp add: best_idx_of_def clip_lower_def)
  moreover have "best_idx_of 5 (map ?row [0.0495, 1.65346, - 0.00000000000003]) = Inr (Some 2)"
    by (simp add: best_idx_of_def clip_lower_def)
  moreover have "best_idx_of 0 (map ?row [- 1, - 2, 3]) = Inr None"
    by (simp add: best_idx_of_def)
  ultimately show ?thesis using ne b by blast
qed

subsection \<open>Electrical\<close>

text \<open>
  C8. When \<open>voltage_kv > 0\<close> and \<open>power_factor > 0\<close>,
  \<open>current_amps = required_discharge_power_mw * 1e6 / (sqrt(3) * voltage_kv * 1000 * power_factor)\<close>;
  otherwise \<open>current_amps = 0\<close>; in every case \<open>breaker_amps = current_amps * 1.25\<close>.
\<close>

theorem electrical_current_and_breaker:
  "(0 < voltage_kv i \<and> 0 < power_factor i \<longrightarrow>
      current_amps i = Inr (required_discharge_power_mw i * 1000000
                              / (sqrt 3 * voltage_kv i * 1000 * power_factor i))) \<and>
   (\<not> (0 < voltage_kv i \<and> 0 < power_factor i) \<longrightarrow> current_amps i = Inr 0) \<and>
   (\<exists>a. current_amps i = Inr a \<and> breaker_amps i = Inr (a * 1.25))"
proof (cases "0 < voltage_kv i \<and> 0 < power_factor i")
  case True
  then have nz: "sqrt 3 * voltage_kv i * 1000 * power_factor i \<noteq> 0" by simp
  have c: "current_amps i = Inr (required_discharge_power_mw i * 1000000
                              / (sqrt 3 * voltage_kv i * 1000 * power_factor i))"
    using True by (simp only: current_amps_def if_True truediv_nonzero [OF nz] simp_thms)
  have b: "breaker_amps i = Inr (required_discharge_power_mw i * 1000000
                              / (sqrt 3 * voltage_kv i * 1000 * power_factor i) * 1.25)"
    by (simp only: breaker_amps_def c and_then_Inr)
  from True c b show ?thesis by blast
next
  case False
  then have c: "current_amps i = Inr 0" by (simp only: current_amps_def if_False simp_thms)
  have b: "breaker_amps i = Inr (0 * 1.25)" by (simp only: breaker_amps_def c and_then_Inr)
  from False c b show ?thesis by blast
qed

theorem electrical_current_and_breaker_witness:
  "0 < voltage_kv default_inputs \<and> 0 < power_factor default_inputs \<and>
   current_amps default_inputs = Inr (0.99 * 1000000 / (sqrt 3 * 0.4 * 1000 * 0.85)) \<and>
   breaker_amps default_inputs = Inr (0.99 * 1000000 / (sqrt 3 * 0.4 * 1000 * 0.85) * 1.25) \<and>
   \<not> (0 < voltage_kv (default_inputs\<lparr>voltage_kv := 0\<rparr>)
       \<and> 0 < power_factor (default_inputs\<lparr>voltage_kv := 0\<rparr>)) \<and>
   current_amps (default_inputs\<lparr>voltage_kv := 0\<rparr>) = Inr 0 \<and>
   breaker_amps (default_inputs\<lparr>voltage_kv := 0\<rparr>) = Inr 0"
proof -
  have h: "0 < voltage_kv default_inputs \<and> 0 < power_factor default_inputs"
    by (simp add: default_inputs_def)
  have f: "required_discharge_power_mw default_inputs = 0.99" "voltage_kv default_inputs = 0.4"
    "power_factor default_inputs = 0.85"
    by (simp_all add: required_discharge_power_mw_def default_inputs_def)
  have g: "\<not> (0 < voltage_kv (default_inputs\<lparr>voltage_kv := 0\<rparr>)
       \<and> 0 < power_factor (default_inputs\<lparr>voltage_kv := 0\<rparr>))" by simp
  from electrical_current_and_breaker [of default_inputs] h
  have 1: "current_amps default_inputs = Inr (0.99 * 1000000 / (sqrt 3 * 0.4 * 1000 * 0.85))"
    unfolding f by blast
  from electrical_current_and_breaker [of default_inputs] 1
  have 2: "breaker_amps default_inputs = Inr (0.99 * 1000000 / (sqrt 3 * 0.4 * 1000 * 0.85) * 1.25)"
    by auto
  from electrical_current_and_breaker [of "default_inputs\<lparr>voltage_kv := 0\<rparr>"] g
  have 3: "current_amps (default_inputs\<lparr>voltage_kv := 0\<rparr>) = Inr 0" by blast
  from electrical_current_and_breaker [of "default_inputs\<lparr>voltage_kv := 0\<rparr>"] 3
  have 4: "breaker_amps (default_inputs\<lparr>voltage_kv := 0\<rparr>) = Inr 0" by auto
  from h 1 2 g 3 4 show ?thesis by blast
qed

end
